theory Spec2Isabelle
  imports Main "HOL-Library.Sublist"
begin

section \<open>Python strings\<close>

text \<open>
  Source texts, prop names and type texts are Python \<open>str\<close> values; they are modelled as
  HOL strings. Character classes and case mappings are Python's on the ASCII repertoire:
  a character above code point 127 is taken to be caseless, not white space and not a
  word character.
\<close>

definition is_space :: "char \<Rightarrow> bool" where
  \<comment> \<open>\<open>str.isspace\<close> and the regular expression class \<open>\s\<close>\<close>
  "is_space c = (let n = (of_char c :: nat) in (9 \<le> n \<and> n \<le> 13) \<or> (28 \<le> n \<and> n \<le> 32))"

definition is_upper :: "char \<Rightarrow> bool" where
  \<comment> \<open>the class \<open>[A-Z]\<close>\<close>
  "is_upper c = (let n = (of_char c :: nat) in 65 \<le> n \<and> n \<le> 90)"

definition is_lower :: "char \<Rightarrow> bool" where
  "is_lower c = (let n = (of_char c :: nat) in 97 \<le> n \<and> n \<le> 122)"

definition is_digit :: "char \<Rightarrow> bool" where
  "is_digit c = (let n = (of_char c :: nat) in 48 \<le> n \<and> n \<le> 57)"

definition is_ident :: "char \<Rightarrow> bool" where
  \<comment> \<open>the classes \<open>[A-Za-z0-9_]\<close> and \<open>\w\<close>\<close>
  "is_ident c = (is_upper c \<or> is_lower c \<or> is_digit c \<or> c = CHR ''_'')"

definition lower_char :: "char \<Rightarrow> char" where
  "lower_char c =
     (case map_of (zip ''ABCDEFGHIJKLMNOPQRSTUVWXYZ'' ''abcdefghijklmnopqrstuvwxyz'') c of
        Some d \<Rightarrow> d | None \<Rightarrow> c)"

definition upper_char :: "char \<Rightarrow> char" where
  "upper_char c =
     (case map_of (zip ''abcdefghijklmnopqrstuvwxyz'' ''ABCDEFGHIJKLMNOPQRSTUVWXYZ'') c of
        Some d \<Rightarrow> d | None \<Rightarrow> c)"

definition lower :: "string \<Rightarrow> string" where
  \<comment> \<open>\<open>str.lower\<close>\<close>
  "lower s = map lower_char s"

definition capitalize :: "string \<Rightarrow> string" where
  \<comment> \<open>\<open>str.capitalize\<close>: first character upper case, the rest lower case\<close>
  "capitalize s = (case s of [] \<Rightarrow> [] | c # cs \<Rightarrow> upper_char c # lower cs)"

definition strip :: "string \<Rightarrow> string" where
  \<comment> \<open>\<open>str.strip()\<close>\<close>
  "strip s = rev (dropWhile is_space (rev (dropWhile is_space s)))"

fun str_in :: "string \<Rightarrow> string \<Rightarrow> bool" where
  \<comment> \<open>\<open>needle in haystack\<close> on strings\<close>
  "str_in n [] = (n = [])"
| "str_in n (c # cs) = (prefix n (c # cs) \<or> str_in n cs)"

definition startswith :: "string \<Rightarrow> string \<Rightarrow> bool" where
  "startswith s p = prefix p s"

definition endswith :: "string \<Rightarrow> string \<Rightarrow> bool" where
  "endswith s p = suffix p s"

fun split_on :: "char \<Rightarrow> string \<Rightarrow> string list" where
  \<comment> \<open>\<open>str.split(sep)\<close> for a separator of one character\<close>
  "split_on d [] = [[]]"
| "split_on d (c # cs) =
     (if c = d then [] # split_on d cs
      else (case split_on d cs of [] \<Rightarrow> [[c]] | w # ws \<Rightarrow> (c # w) # ws))"

fun split_ws :: "string \<Rightarrow> string list" where
  \<comment> \<open>\<open>str.split()\<close>: the maximal runs of characters that are not white space\<close>
  "split_ws [] = []"
| "split_ws (c # cs) =
     (if is_space c then split_ws cs
      else (case cs of
              [] \<Rightarrow> [[c]]
            | d # _ \<Rightarrow> if is_space d then [c] # split_ws cs
                       else (case split_ws cs of [] \<Rightarrow> [[c]] | w # ws \<Rightarrow> (c # w) # ws)))"

fun join :: "string \<Rightarrow> string list \<Rightarrow> string" where
  \<comment> \<open>\<open>sep.join(parts)\<close>\<close>
  "join sep [] = []"
| "join sep [x] = x"
| "join sep (x # y # ys) = x @ sep @ join sep (y # ys)"

fun replace_ne :: "string \<Rightarrow> string \<Rightarrow> string \<Rightarrow> string" where
  "replace_ne old new [] = []"
| "replace_ne old new (c # cs) =
     (if prefix old (c # cs) then new @ replace_ne old new (drop (length old - 1) cs)
      else c # replace_ne old new cs)"

definition replace :: "string \<Rightarrow> string \<Rightarrow> string \<Rightarrow> string" where
  \<comment> \<open>\<open>s.replace(old, new)\<close>, written \<open>replace old new s\<close>\<close>
  "replace old new s =
     (if old = [] then new @ concat (map (\<lambda>c. c # new) s) else replace_ne old new s)"

section \<open>Regular expressions\<close>

text \<open>
  The patterns of the scripts are built from literals, character classes, greedy
  repetition of a class, optional parts, alternatives and numbered groups. \<open>rx_all\<close>
  lists every way a pattern matches a prefix of the text, in the order in which Python's
  backtracking matcher tries them, so the head of the list is the match Python reports.
  Each result is the text left after the match and the groups that took part.
\<close>

datatype rx =
    Lit string
  | Cls "char \<Rightarrow> bool"
  | Star "char \<Rightarrow> bool"
  | Plus "char \<Rightarrow> bool"
  | Opt rx
  | Grp nat rx
  | Cat rx rx
  | Alt rx rx

type_synonym groups = "(nat \<times> string) list"

fun rx_all :: "rx \<Rightarrow> string \<times> groups \<Rightarrow> (string \<times> groups) list" where
  "rx_all (Lit l) (s, g) = (if prefix l s then [(drop (length l) s, g)] else [])"
| "rx_all (Cls p) (s, g) = (case s of [] \<Rightarrow> [] | c # cs \<Rightarrow> if p c then [(cs, g)] else [])"
| "rx_all (Star p) (s, g) =
     map (\<lambda>k. (drop k s, g)) (rev [0 ..< Suc (length (takeWhile p s))])"
| "rx_all (Plus p) (s, g) =
     map (\<lambda>k. (drop k s, g)) (rev [1 ..< Suc (length (takeWhile p s))])"
| "rx_all (Opt r) (s, g) = rx_all r (s, g) @ [(s, g)]"
| "rx_all (Grp n r) (s, g) =
     map (\<lambda>(s', g'). (s', (n, take (length s - length s') s) # g')) (rx_all r (s, g))"
| "rx_all (Cat r1 r2) (s, g) = concat (map (rx_all r2) (rx_all r1 (s, g)))"
| "rx_all (Alt r1 r2) (s, g) = rx_all r1 (s, g) @ rx_all r2 (s, g)"

definition match_group :: "groups \<Rightarrow> nat \<Rightarrow> string option" where
  \<comment> \<open>\<open>match.group(n)\<close>: \<open>None\<close> for a group that took no part in the match\<close>
  "match_group g n = map_of g n"

fun re_search :: "rx \<Rightarrow> string \<Rightarrow> groups option" where
  \<comment> \<open>\<open>re.search\<close>: the match at the leftmost position that has one\<close>
  "re_search r [] = (case rx_all r ([], []) of [] \<Rightarrow> None | (_, g) # _ \<Rightarrow> Some g)"
| "re_search r (c # cs) =
     (case rx_all r (c # cs, []) of [] \<Rightarrow> re_search r cs | (_, g) # _ \<Rightarrow> Some g)"

text \<open>
  \<open>re.finditer\<close> scans from left to right and resumes where the last match ended.
  \<open>scan r k s\<close> skips \<open>k\<close> characters that the last match consumed and then looks
  for the next match. No pattern of the scripts matches the empty string, so the empty
  match at the end of the text is not looked for.
\<close>

fun scan :: "rx \<Rightarrow> nat \<Rightarrow> string \<Rightarrow> groups list" where
  "scan r k [] = []"
| "scan r k (c # cs) =
     (if 0 < k then scan r (k - 1) cs
      else (case rx_all r (c # cs, []) of
              [] \<Rightarrow> scan r 0 cs
            | (rest, g) # _ \<Rightarrow> g # scan r (length cs - length rest) cs))"

definition re_finditer :: "rx \<Rightarrow> string \<Rightarrow> groups list" where
  "re_finditer r s = scan r 0 s"

definition re_findall1 :: "rx \<Rightarrow> string \<Rightarrow> string list" where
  \<comment> \<open>\<open>re.findall\<close> for a pattern with one group, which always takes part\<close>
  "re_findall1 r s = map (\<lambda>g. case match_group g 1 of None \<Rightarrow> [] | Some t \<Rightarrow> t) (re_finditer r s)"

definition cat :: "rx list \<Rightarrow> rx" where
  "cat rs = foldr Cat rs (Lit [])"

section \<open>Variant detection (detect\_variants.py)\<close>

datatype pyval = PStr string | PBool bool

record Variant =
  name :: string
  description :: string
  args :: "(string \<times> pyval) list"
  priority :: int

text \<open>The dictionary that describes one prop, as \<open>_metadata_to_dict\<close> builds it.\<close>

record prop_dict =
  pd_name :: string
  pd_type :: string
  pd_required :: bool
  pd_default_value :: "string option"

text \<open>
  The metadata dictionary. \<open>detect_variants\<close> reads the keys \<open>props\<close> and
  \<open>component_type\<close> with \<open>dict.get\<close>, so either may be absent.
\<close>

record metadata_dict =
  md_name :: string
  md_component_type :: "string option"
  md_props :: "prop_dict list option"

definition VARIANT_PATTERNS :: "(string \<times> string list) list" where
  "VARIANT_PATTERNS =
     [(''variant'', [''primary'', ''secondary'', ''outline'', ''ghost'', ''link'', ''danger'',
                     ''success'', ''warning'']),
      (''color'', [''primary'', ''secondary'', ''success'', ''warning'', ''danger'', ''info'']),
      (''size'', [''small'', ''medium'', ''large'', ''xs'', ''sm'', ''md'', ''lg'', ''xl'']),
      (''type'', [''button'', ''submit'', ''reset'', ''text'', ''email'', ''password'', ''number'']),
      (''appearance'', [''filled'', ''outline'', ''ghost'', ''link'']),
      (''intent'', [''primary'', ''success'', ''warning'', ''danger''])]"

definition STATE_PROPS :: "string list" where
  "STATE_PROPS =
     [''disabled'', ''loading'', ''active'', ''selected'', ''checked'', ''error'', ''readonly'']"

definition is_quote :: "char \<Rightarrow> bool" where
  "is_quote c = (c = CHR 0x22 \<or> c = CHR 0x27)"

definition union_rx :: rx where
  \<comment> \<open>a quote, a group of one or more characters that are not quotes, a quote\<close>
  "union_rx = cat [Cls is_quote, Grp 1 (Plus (\<lambda>c. \<not> is_quote c)), Cls is_quote]"

definition parse_union_type :: "string \<Rightarrow> string list" where
  "parse_union_type type_str =
     (let matches = re_findall1 union_rx type_str in
      if matches \<noteq> [] then matches
      else if str_in ''|'' type_str
           then filter (\<lambda>p. p \<noteq> []) (map strip (split_on (CHR ''|'') type_str))
           else [])"

definition enum_variants_of :: "prop_dict \<Rightarrow> Variant list" where
  \<comment> \<open>the body of the loop of \<open>_detect_enum_variants\<close>\<close>
  "enum_variants_of prop =
     (case map_of VARIANT_PATTERNS (pd_name prop) of
        None \<Rightarrow> []
      | Some expected_values \<Rightarrow>
          map (\<lambda>v. \<lparr>name = capitalize v,
                    description = pd_name prop @ '': '' @ v,
                    args = [(pd_name prop, PStr v)],
                    priority = 1\<rparr>)
              (filter (\<lambda>v. expected_values = [] \<or> v \<in> set expected_values)
                      (parse_union_type (pd_type prop))))"

definition detect_enum_variants :: "prop_dict list \<Rightarrow> Variant list" where
  "detect_enum_variants props = concat (map enum_variants_of props)"

definition size_variant_of :: "string \<Rightarrow> string \<Rightarrow> Variant list" where
  "size_variant_of prop_name v =
     (if lower v \<in> set [''small'', ''sm'', ''xs'']
      then [\<lparr>name = ''Small'', description = ''Small size variant'',
             args = [(prop_name, PStr v)], priority = 2\<rparr>]
      else if lower v \<in> set [''large'', ''lg'', ''xl'']
      then [\<lparr>name = ''Large'', description = ''Large size variant'',
             args = [(prop_name, PStr v)], priority = 2\<rparr>]
      else [])"

definition size_variants_of :: "prop_dict \<Rightarrow> Variant list" where
  \<comment> \<open>the body of the loop of \<open>_detect_size_variants\<close>\<close>
  "size_variants_of prop =
     (if lower (pd_name prop) \<in> set [''size'', ''fontsize'']
      then concat (map (size_variant_of (pd_name prop)) (parse_union_type (pd_type prop)))
      else [])"

definition detect_size_variants :: "prop_dict list \<Rightarrow> Variant list" where
  "detect_size_variants props = concat (map size_variants_of props)"

definition state_variants_of :: "prop_dict \<Rightarrow> Variant list" where
  \<comment> \<open>the body of the loop of \<open>_detect_state_variants\<close>\<close>
  "state_variants_of prop =
     (if str_in ''boolean'' (lower (pd_type prop)) \<and> lower (pd_name prop) \<in> set STATE_PROPS
      then [\<lparr>name = capitalize (pd_name prop),
             description = pd_name prop @ '' state'',
             args = [(pd_name prop, PBool True)],
             priority = 2\<rparr>]
      else [])"

definition detect_state_variants :: "prop_dict list \<Rightarrow> Variant list" where
  "detect_state_variants props = concat (map state_variants_of props)"

definition detect_type_specific_variants :: "string \<Rightarrow> prop_dict list \<Rightarrow> Variant list" where
  "detect_type_specific_variants component_type props =
     (if component_type = ''button'' then
        (if list_ex (\<lambda>p. lower (pd_name p) \<in> set [''icon'', ''lefticon'', ''righticon'']) props
         then [\<lparr>name = ''WithIcon'', description = ''Button with icon'',
                args = [], priority = 3\<rparr>]
         else [])
      else if component_type = ''input'' then
        (if list_ex (\<lambda>p. lower (pd_name p) \<in> set [''error'', ''iserror'', ''haserror'']) props
         then [\<lparr>name = ''WithError'', description = ''Input with error state'',
                args = [(''error'', PStr ''This field is required'')], priority = 2\<rparr>]
         else [])
      else if component_type = ''modal'' then
        [\<lparr>name = ''Open'', description = ''Modal in open state'',
          args = [(''isOpen'', PBool True)], priority = 1\<rparr>]
      else if component_type = ''table'' then
        [\<lparr>name = ''WithData'', description = ''Table with sample data'',
          args = [], priority = 1\<rparr>,
         \<lparr>name = ''Empty'', description = ''Table with no data'',
          args = [], priority = 2\<rparr>]
      else [])"

definition default_variant :: Variant where
  "default_variant =
     \<lparr>name = ''Default'', description = ''Default component state'', args = [], priority = 1\<rparr>"

definition detected :: "metadata_dict \<Rightarrow> Variant list" where
  \<comment> \<open>what the four passes of \<open>detect_variants\<close> append, in order\<close>
  "detected md =
     (let props = (case md_props md of None \<Rightarrow> [] | Some ps \<Rightarrow> ps);
          component_type = (case md_component_type md of None \<Rightarrow> ''other'' | Some t \<Rightarrow> t)
      in detect_enum_variants props @ detect_size_variants props
         @ detect_state_variants props
         @ detect_type_specific_variants component_type props)"

definition detect_variants :: "metadata_dict \<Rightarrow> Variant list" where
  \<comment> \<open>\<open>list.sort\<close> is stable, as the insertion sort \<open>sort_key\<close> is\<close>
  "detect_variants md =
     (let variants = detected md;
          variants = (if variants = [] then variants @ [default_variant] else variants)
      in sort_key priority variants)"

section \<open>Paths, files and exceptions\<close>

text \<open>
  \<open>pathlib\<close> on POSIX paths: the name of a path is its last component, where empty
  components and \<open>.\<close> are dropped; the suffix starts at the last dot of the name,
  unless that dot is the first or the last character of the name.
\<close>

definition path_parts :: "string \<Rightarrow> string list" where
  "path_parts p = filter (\<lambda>c. c \<noteq> [] \<and> c \<noteq> ''.'') (split_on (CHR ''/'') p)"

definition path_name :: "string \<Rightarrow> string" where
  "path_name p = (case path_parts p of [] \<Rightarrow> [] | q # qs \<Rightarrow> last (q # qs))"

definition rfind_dot :: "string \<Rightarrow> nat option" where
  \<comment> \<open>\<open>name.rfind('.')\<close>, \<open>None\<close> for -1\<close>
  "rfind_dot n =
     (if CHR ''.'' \<in> set n
      then Some (length n - 1 - length (takeWhile (\<lambda>c. c \<noteq> CHR ''.'') (rev n)))
      else None)"

definition path_suffix :: "string \<Rightarrow> string" where
  "path_suffix p =
     (let n = path_name p in
      case rfind_dot n of
        None \<Rightarrow> []
      | Some i \<Rightarrow> if 0 < i \<and> i < length n - 1 then drop i n else [])"

definition path_stem :: "string \<Rightarrow> string" where
  "path_stem p =
     (let n = path_name p in
      case rfind_dot n of
        None \<Rightarrow> n
      | Some i \<Rightarrow> if 0 < i \<and> i < length n - 1 then take i n else n)"

datatype exn = IOError | ReError | TypeError | AttributeError

datatype message =
    ErrorParsing string exn
  | UnsupportedFileType string
  | FailedToParse string
  | TemplateNotFound string
  | StoryGenerated string

text \<open>
  A path names nothing, or something that cannot be opened and decoded as UTF-8 text
  (\<open>open\<close> or \<open>read\<close> raises), or a text file.
\<close>

datatype node = Missing | Unreadable | Text string

record world =
  fs :: "string \<Rightarrow> node"
  writable :: "string \<Rightarrow> bool"
  stderr :: "message list"
  stdout :: "message list"

definition read_file :: "world \<Rightarrow> string \<Rightarrow> exn + string" where
  "read_file w p = (case fs w p of Text s \<Rightarrow> Inr s | _ \<Rightarrow> Inl IOError)"

definition exists :: "world \<Rightarrow> string \<Rightarrow> bool" where
  "exists w p = (fs w p \<noteq> Missing)"

definition eprint :: "message \<Rightarrow> world \<Rightarrow> world" where
  "eprint m w = w\<lparr>stderr := stderr w @ [m]\<rparr>"

definition bind :: "exn + 'a \<Rightarrow> ('a \<Rightarrow> exn + 'b) \<Rightarrow> exn + 'b" where
  "bind m f = (case m of Inl e \<Rightarrow> Inl e | Inr x \<Rightarrow> f x)"

fun traverse :: "('a \<Rightarrow> exn + 'b) \<Rightarrow> 'a list \<Rightarrow> exn + 'b list" where
  "traverse f [] = Inr []"
| "traverse f (x # xs) = bind (f x) (\<lambda>y. bind (traverse f xs) (\<lambda>ys. Inr (y # ys)))"

definition grp :: "groups \<Rightarrow> nat \<Rightarrow> exn + string" where
  \<comment> \<open>a string method called on \<open>match.group(n)\<close> raises when the group is \<open>None\<close>\<close>
  "grp g n = (case match_group g n of None \<Rightarrow> Inl AttributeError | Some t \<Rightarrow> Inr t)"

section \<open>The component parser (parse\_component.py)\<close>

record PropDefinition =
  prop_name :: string
  prop_type :: string
  required :: bool
  default_value :: "string option"
  prop_description :: "string option"

record ComponentMetadata =
  cm_name :: string
  file_path :: string
  framework :: string
  props :: "PropDefinition list"
  component_type :: string
  has_children :: bool
  exports_default :: bool

definition CLASSIFY_RULES :: "(string list \<times> string) list" where
  \<comment> \<open>the chain of tests of \<open>classify_component\<close>, in its order\<close>
  "CLASSIFY_RULES =
     [([''button'', ''btn''], ''button''),
      ([''input'', ''textfield'', ''textarea''], ''input''),
      ([''select'', ''dropdown'', ''combo''], ''select''),
      ([''checkbox'', ''check''], ''checkbox''),
      ([''radio''], ''radio''),
      ([''switch'', ''toggle''], ''switch''),
      ([''card''], ''card''),
      ([''modal'', ''dialog''], ''modal''),
      ([''sidebar'', ''drawer''], ''sidebar''),
      ([''container'', ''box'', ''grid''], ''layout''),
      ([''table'', ''datagrid''], ''table''),
      ([''list''], ''list''),
      ([''chart'', ''graph''], ''chart''),
      ([''badge'', ''tag'', ''chip''], ''badge''),
      ([''avatar''], ''avatar''),
      ([''alert'', ''notification''], ''alert''),
      ([''toast'', ''snackbar''], ''toast''),
      ([''progress'', ''loader'', ''spinner''], ''progress''),
      ([''menu'', ''nav''], ''menu''),
      ([''tab''], ''tabs''),
      ([''breadcrumb''], ''breadcrumb''),
      ([''pagination'', ''pager''], ''pagination'')]"

fun first_rule :: "string \<Rightarrow> (string list \<times> string) list \<Rightarrow> string" where
  "first_rule name_lower [] = ''other''"
| "first_rule name_lower ((terms, category) # rules) =
     (if list_ex (\<lambda>t. str_in t name_lower) terms then category
      else first_rule name_lower rules)"

definition classify_component :: "string \<Rightarrow> PropDefinition list \<Rightarrow> string" where
  "classify_component nm ps = first_rule (lower nm) CLASSIFY_RULES"

subsection \<open>React and TypeScript\<close>

definition ident_rx :: rx where
  \<comment> \<open>\<open>[A-Z][A-Za-z0-9_]*\<close>\<close>
  "ident_rx = Cat (Cls is_upper) (Star is_ident)"

definition function_rx :: rx where
  "function_rx = cat [Lit ''function'', Plus is_space, Grp 1 ident_rx]"

definition const_rx :: rx where
  "const_rx = cat [Lit ''const'', Plus is_space, Grp 1 ident_rx, Star is_space,
                   Cls (\<lambda>c. c = CHR ''='' \<or> c = CHR '':'')]"

definition export_function_rx :: rx where
  "export_function_rx =
     cat [Lit ''export'', Plus is_space, Opt (Cat (Lit ''default'') (Plus is_space)),
          Lit ''function'', Plus is_space, Grp 1 ident_rx]"

definition extract_component_name :: "string \<Rightarrow> string \<Rightarrow> string option" where
  "extract_component_name content path =
     (case re_search function_rx content of
        Some g \<Rightarrow> match_group g 1
      | None \<Rightarrow>
         (case re_search const_rx content of
            Some g \<Rightarrow> match_group g 1
          | None \<Rightarrow>
             (case re_search export_function_rx content of
                Some g \<Rightarrow> match_group g 1
              | None \<Rightarrow> Some (path_stem path))))"

datatype decl_kind = Interface | TypeAlias

definition decl_rx :: "decl_kind \<Rightarrow> string \<Rightarrow> rx" where
  \<comment> \<open>\<open>interface\s+NAMEProps\s*\{([^}]+)\}\<close> and \<open>type\s+NAMEProps\s*=\s*\{([^}]+)\}\<close>\<close>
  "decl_rx k nm =
     (case k of
        Interface \<Rightarrow>
          cat [Lit ''interface'', Plus is_space, Lit (nm @ ''Props''), Star is_space,
               Lit ''{'', Grp 1 (Plus (\<lambda>c. c \<noteq> CHR ''}'')), Lit ''}'']
      | TypeAlias \<Rightarrow>
          cat [Lit ''type'', Plus is_space, Lit (nm @ ''Props''), Star is_space,
               Lit ''='', Star is_space,
               Lit ''{'', Grp 1 (Plus (\<lambda>c. c \<noteq> CHR ''}'')), Lit ''}''])"

text \<open>
  \<open>_extract_props\<close> pastes the component name into its first and third pattern. A
  name without the special characters of regular expressions stands for itself there.
  Any other name (it can only come from the file name) is read by \<open>re\<close> as pattern
  syntax; what the search then does is left open: \<open>re_named\<close> is a parameter that
  gives, for the kind of declaration, the name and the text, an exception raised by
  \<open>re\<close>, or no match, or a match with its first group (\<open>None\<close> if the group took
  no part). \<open>TEMPLATE_DIR\<close> is the directory of the templates, fixed by where the
  scripts are installed.
\<close>

record env =
  TEMPLATE_DIR :: string
  re_named :: "decl_kind \<Rightarrow> string \<Rightarrow> string \<Rightarrow> exn + string option option"

definition re_special :: string where
  "re_special = [CHR ''.'', CHR ''^'', CHR ''$'', CHR ''*'', CHR ''+'', CHR ''?'', CHR ''{'',
                 CHR ''}'', CHR ''['', CHR '']'', CHR 0x5C, CHR ''|'', CHR ''('', CHR '')'']"

definition search_decl :: "env \<Rightarrow> decl_kind \<Rightarrow> string \<Rightarrow> string \<Rightarrow> exn + string option option" where
  "search_decl e k nm content =
     (if list_all (\<lambda>c. c \<notin> set re_special) nm
      then Inr (map_option (\<lambda>g. match_group g 1) (re_search (decl_rx k nm) content))
      else re_named e k nm content)"

definition react_prop_rx :: rx where
  \<comment> \<open>\<open>(\w+)(\?)?:\s*([^;]+);?\<close>\<close>
  "react_prop_rx =
     cat [Grp 1 (Plus is_ident), Opt (Grp 2 (Lit ''?'')), Lit '':'', Star is_space,
          Grp 3 (Plus (\<lambda>c. c \<noteq> CHR '';'')), Opt (Lit '';'')]"

definition react_prop_of :: "groups \<Rightarrow> exn + PropDefinition" where
  "react_prop_of g =
     bind (grp g 3) (\<lambda>t.
       case match_group g 1 of
         None \<Rightarrow> Inl TypeError
       | Some n \<Rightarrow>
           Inr \<lparr>prop_name = n, prop_type = join '' '' (split_ws (strip t)),
                required = \<not> (match_group g 2 = Some ''?''),
                default_value = None, prop_description = None\<rparr>)"

definition react_extract_props :: "env \<Rightarrow> string \<Rightarrow> string \<Rightarrow> exn + PropDefinition list" where
  "react_extract_props e content component_name =
     bind (search_decl e Interface component_name content) (\<lambda>m1.
     bind (if m1 \<noteq> None then Inr m1 else search_decl e Interface [] content) (\<lambda>m2.
     bind (if m2 \<noteq> None then Inr m2 else search_decl e TypeAlias component_name content) (\<lambda>m3.
     bind (if m3 \<noteq> None then Inr m3 else search_decl e TypeAlias [] content) (\<lambda>m4.
       case m4 of
         None \<Rightarrow> Inr []
       | Some None \<Rightarrow> Inl TypeError
       | Some (Some props_block) \<Rightarrow>
           traverse react_prop_of (re_finditer react_prop_rx props_block)))))"

definition ReactTypeScriptParser_parse ::
    "env \<Rightarrow> string \<Rightarrow> world \<Rightarrow> ComponentMetadata option \<times> world" where
  "ReactTypeScriptParser_parse e path w =
     (case read_file w path of
        Inl x \<Rightarrow> (None, eprint (ErrorParsing path x) w)
      | Inr content \<Rightarrow>
         (case extract_component_name content path of
            None \<Rightarrow> (None, w)
          | Some nm \<Rightarrow>
             if nm = [] then (None, w)
             else (case react_extract_props e content nm of
                     Inl x \<Rightarrow> (None, eprint (ErrorParsing path x) w)
                   | Inr ps \<Rightarrow>
                      (Some \<lparr>cm_name = nm, file_path = path, framework = ''react'',
                             props = ps,
                             component_type = classify_component nm ps,
                             has_children = list_ex (\<lambda>p. prop_name p = ''children'') ps,
                             exports_default = str_in ''export default'' content\<rparr>, w))))"

subsection \<open>Vue\<close>

definition vue_props_rx :: rx where
  \<comment> \<open>\<open>defineProps<\{([^}]+)\}>\<close>\<close>
  "vue_props_rx = cat [Lit ''defineProps<{'', Grp 1 (Plus (\<lambda>c. c \<noteq> CHR ''}'')), Lit ''}>'']"

definition vue_prop_rx :: rx where
  \<comment> \<open>\<open>(\w+)(\?)?:\s*([^;,]+)\<close>\<close>
  "vue_prop_rx =
     cat [Grp 1 (Plus is_ident), Opt (Grp 2 (Lit ''?'')), Lit '':'', Star is_space,
          Grp 3 (Plus (\<lambda>c. c \<noteq> CHR '';'' \<and> c \<noteq> CHR '',''))]"

definition vue_prop_of :: "groups \<Rightarrow> exn + PropDefinition" where
  "vue_prop_of g =
     bind (grp g 3) (\<lambda>t.
       case match_group g 1 of
         None \<Rightarrow> Inl TypeError
       | Some n \<Rightarrow>
           Inr \<lparr>prop_name = n, prop_type = strip t,
                required = \<not> (match_group g 2 = Some ''?''),
                default_value = None, prop_description = None\<rparr>)"

definition vue_runtime_rx :: rx where
  \<comment> \<open>\<open>defineProps\(\{([^}]+)\}\)\<close>\<close>
  "vue_runtime_rx =
     cat [Lit ''defineProps({'', Grp 1 (Plus (\<lambda>c. c \<noteq> CHR ''}'')), Lit ''})'']"

definition vue_runtime_prop_rx :: rx where
  \<comment> \<open>\<open>(\w+):\s*\{[^}]*type:\s*(\w+)[^}]*required:\s*(true|false)?[^}]*\}\<close>\<close>
  "vue_runtime_prop_rx =
     cat [Grp 1 (Plus is_ident), Lit '':'', Star is_space, Lit ''{'',
          Star (\<lambda>c. c \<noteq> CHR ''}''), Lit ''type:'', Star is_space, Grp 2 (Plus is_ident),
          Star (\<lambda>c. c \<noteq> CHR ''}''), Lit ''required:'', Star is_space,
          Opt (Grp 3 (Alt (Lit ''true'') (Lit ''false''))),
          Star (\<lambda>c. c \<noteq> CHR ''}''), Lit ''}'']"

definition vue_runtime_prop_of :: "groups \<Rightarrow> exn + PropDefinition" where
  "vue_runtime_prop_of g =
     (case (match_group g 1, match_group g 2) of
        (Some n, Some t) \<Rightarrow>
          Inr \<lparr>prop_name = n, prop_type = t,
               required = (case match_group g 3 of
                             None \<Rightarrow> False
                           | Some r \<Rightarrow> if r = [] then False else r = ''true''),
               default_value = None, prop_description = None\<rparr>
      | _ \<Rightarrow> Inl TypeError)"

definition vue_extract_props :: "string \<Rightarrow> exn + PropDefinition list" where
  "vue_extract_props content =
     bind (case re_search vue_props_rx content of
             None \<Rightarrow> Inr []
           | Some g \<Rightarrow>
              (case match_group g 1 of
                 None \<Rightarrow> Inl TypeError
               | Some props_block \<Rightarrow>
                   traverse vue_prop_of (re_finditer vue_prop_rx props_block)))
       (\<lambda>ps.
          case re_search vue_runtime_rx content of
            None \<Rightarrow> Inr ps
          | Some g \<Rightarrow>
             if ps \<noteq> [] then Inr ps
             else (case match_group g 1 of
                     None \<Rightarrow> Inl TypeError
                   | Some props_block \<Rightarrow>
                       bind (traverse vue_runtime_prop_of
                               (re_finditer vue_runtime_prop_rx props_block))
                            (\<lambda>rs. Inr (ps @ rs))))"

definition VueParser_parse :: "string \<Rightarrow> world \<Rightarrow> ComponentMetadata option \<times> world" where
  "VueParser_parse path w =
     (case read_file w path of
        Inl x \<Rightarrow> (None, eprint (ErrorParsing path x) w)
      | Inr content \<Rightarrow>
         (let nm = path_stem path in
          case vue_extract_props content of
            Inl x \<Rightarrow> (None, eprint (ErrorParsing path x) w)
          | Inr ps \<Rightarrow>
             (Some \<lparr>cm_name = nm, file_path = path, framework = ''vue'',
                    props = ps,
                    component_type = classify_component nm ps,
                    has_children = str_in ''<slot'' content,
                    exports_default = True\<rparr>, w)))"

subsection \<open>Svelte\<close>

definition svelte_prop_rx :: rx where
  \<comment> \<open>\<open>export\s+let\s+(\w+)(?::\s*([^=;]+))?(?:\s*=\s*([^;]+))?;?\<close>\<close>
  "svelte_prop_rx =
     cat [Lit ''export'', Plus is_space, Lit ''let'', Plus is_space, Grp 1 (Plus is_ident),
          Opt (cat [Lit '':'', Star is_space,
                    Grp 2 (Plus (\<lambda>c. c \<noteq> CHR ''='' \<and> c \<noteq> CHR '';''))]),
          Opt (cat [Star is_space, Lit ''='', Star is_space,
                    Grp 3 (Plus (\<lambda>c. c \<noteq> CHR '';''))]),
          Opt (Lit '';'')]"

definition svelte_prop_of :: "groups \<Rightarrow> exn + PropDefinition" where
  "svelte_prop_of g =
     (case match_group g 1 of
        None \<Rightarrow> Inl TypeError
      | Some n \<Rightarrow>
         (let t = (case match_group g 2 of
                     None \<Rightarrow> ''any''
                   | Some t \<Rightarrow> if t = [] then ''any'' else strip t);
              default = (case match_group g 3 of
                           None \<Rightarrow> None
                         | Some d \<Rightarrow> if d = [] then None else Some (strip d));
              req = (default = None)
          in Inr \<lparr>prop_name = n, prop_type = t, required = req,
                  default_value = default, prop_description = None\<rparr>))"

definition svelte_extract_props :: "string \<Rightarrow> exn + PropDefinition list" where
  "svelte_extract_props content = traverse svelte_prop_of (re_finditer svelte_prop_rx content)"

definition SvelteParser_parse :: "string \<Rightarrow> world \<Rightarrow> ComponentMetadata option \<times> world" where
  "SvelteParser_parse path w =
     (case read_file w path of
        Inl x \<Rightarrow> (None, eprint (ErrorParsing path x) w)
      | Inr content \<Rightarrow>
         (let nm = path_stem path in
          case svelte_extract_props content of
            Inl x \<Rightarrow> (None, eprint (ErrorParsing path x) w)
          | Inr ps \<Rightarrow>
             (Some \<lparr>cm_name = nm, file_path = path, framework = ''svelte'',
                    props = ps,
                    component_type = classify_component nm ps,
                    has_children = str_in ''<slot'' content,
                    exports_default = True\<rparr>, w)))"

subsection \<open>Dispatch on the extension\<close>

definition parse_component :: "env \<Rightarrow> string \<Rightarrow> world \<Rightarrow> ComponentMetadata option \<times> world" where
  "parse_component e path w =
     (let extension = lower (path_suffix path) in
      if extension \<in> set [''.tsx'', ''.jsx'', ''.ts'', ''.js''] then ReactTypeScriptParser_parse e path w
      else if extension = ''.vue'' then VueParser_parse path w
      else if extension = ''.svelte'' then SvelteParser_parse path w
      else (None, eprint (UnsupportedFileType extension) w))"

section \<open>The story generator (generate\_story.py)\<close>

definition INTERACTION_TESTS :: "(string \<times> string) list" where
  "INTERACTION_TESTS =
     [(''button'',
       ''\<newline>''
       @ ''    const button = canvas.getByRole('button');\<newline>''
       @ ''    await expect(button).toBeInTheDocument();\<newline>''
       @ ''    await userEvent.click(button);\<newline>''
       @ ''    if (args.onClick) {\<newline>''
       @ ''      await expect(args.onClick).toHaveBeenCalled();\<newline>''
       @ ''    }\<newline>''
       @ ''    await expect(button).not.toBeDisabled();\<newline>''
       @ ''        ''),
      (''input'',
       ''\<newline>''
       @ ''    const input = canvas.getByRole('textbox');\<newline>''
       @ ''    await expect(input).toBeInTheDocument();\<newline>''
       @ ''    await userEvent.type(input, 'Test input');\<newline>''
       @ ''    await expect(input).toHaveValue('Test input');\<newline>''
       @ ''        ''),
      (''checkbox'',
       ''\<newline>''
       @ ''    const checkbox = canvas.getByRole('checkbox');\<newline>''
       @ ''    await expect(checkbox).toBeInTheDocument();\<newline>''
       @ ''    await userEvent.click(checkbox);\<newline>''
       @ ''    await expect(checkbox).toBeChecked();\<newline>''
       @ ''        ''),
      (''select'',
       ''\<newline>''
       @ ''    const select = canvas.getByRole('combobox');\<newline>''
       @ ''    await expect(select).toBeInTheDocument();\<newline>''
       @ ''    await userEvent.selectOptions(select, 'option1');\<newline>''
       @ ''        '')]"

definition A11Y_TEST_CODE :: "(string \<times> string) list" where
  "A11Y_TEST_CODE =
     [(''button'',
       ''\<newline>''
       @ ''    const button = canvas.getByRole('button');\<newline>''
       @ ''    button.focus();\<newline>''
       @ ''    await expect(button).toHaveFocus();\<newline>''
       @ ''    await userEvent.keyboard('{Enter}');\<newline>''
       @ ''        ''),
      (''input'',
       ''\<newline>''
       @ ''    const input = canvas.getByRole('textbox');\<newline>''
       @ ''    await expect(input).toHaveAccessibleName();\<newline>''
       @ ''    input.focus();\<newline>''
       @ ''    await expect(input).toHaveFocus();\<newline>''
       @ ''        '')]"

definition A11Y_RULES :: "(string \<times> string list) list" where
  "A11Y_RULES =
     [(''button'', [''{ id: 'button-name', enabled: true }'',
                    ''{ id: 'color-contrast', enabled: true }'']),
      (''input'', [''{ id: 'label', enabled: true }'',
                   ''{ id: 'color-contrast', enabled: true }'']),
      (''modal'', [''{ id: 'aria-dialog-name', enabled: true }'',
                   ''{ id: 'focus-trap', enabled: true }''])]"

definition get_default :: "(string \<times> 'a) list \<Rightarrow> string \<Rightarrow> 'a \<Rightarrow> 'a" where
  \<comment> \<open>\<open>table.get(key, default)\<close>\<close>
  "get_default table k d = (case map_of table k of None \<Rightarrow> d | Some v \<Rightarrow> v)"

definition metadata_to_dict :: "ComponentMetadata \<Rightarrow> metadata_dict" where
  "metadata_to_dict metadata =
     \<lparr>md_name = cm_name metadata,
      md_component_type = Some (component_type metadata),
      md_props = Some (map (\<lambda>p. \<lparr>pd_name = prop_name p, pd_type = prop_type p,
                                   pd_required = required p,
                                   pd_default_value = default_value p\<rparr>)
                           (props metadata))\<rparr>"

definition quoted_rx :: rx where
  \<comment> \<open>a single quote, a group of one or more other characters, a single quote\<close>
  "quoted_rx = cat [Lit [CHR 0x27], Grp 1 (Plus (\<lambda>c. c \<noteq> CHR 0x27)), Lit [CHR 0x27]]"

definition enum_control :: "string \<Rightarrow> string option" where
  \<comment> \<open>the branch of \<open>_infer_control_type\<close> for a union of quoted literals\<close>
  "enum_control t =
     (if str_in ''|'' t \<and> str_in [CHR 0x27] t then
        (let matches = re_findall1 quoted_rx t in
         if matches \<noteq> [] then
           (let options_str = join '', '' (map (\<lambda>opt. [CHR 0x27] @ opt @ [CHR 0x27]) matches) in
            if length matches \<le> 4
            then Some (''{ options: ['' @ options_str @ ''], control: { type: 'radio' } }'')
            else Some (''{ options: ['' @ options_str @ ''], control: { type: 'select' } }''))
         else None)
      else None)"

definition infer_control_type :: "PropDefinition \<Rightarrow> string option" where
  "infer_control_type prop =
     (let ptype = lower (prop_type prop); pname = lower (prop_name prop) in
      if str_in ''boolean'' ptype then Some ''{ control: 'boolean' }''
      else if str_in ''number'' ptype then
        (if list_ex (\<lambda>hint. str_in hint pname) [''opacity'', ''progress'', ''percent'', ''ratio'']
         then Some ''{ control: { type: 'range', min: 0, max: 1, step: 0.1 } }''
         else if list_ex (\<lambda>hint. str_in hint pname)
                   [''size'', ''width'', ''height'', ''padding'', ''margin'', ''gap'']
         then Some ''{ control: { type: 'range', min: 0, max: 100, step: 1 } }''
         else Some ''{ control: 'number' }'')
      else if list_ex (\<lambda>hint. str_in hint pname)
                [''color'', ''background'', ''bg'', ''fill'', ''stroke'']
      then Some ''{ control: 'color' }''
      else if endswith pname ''date'' \<or> endswith pname ''time'' \<or> str_in ''timestamp'' pname
      then Some ''{ control: 'date' }''
      else if str_in ''object'' ptype \<or> str_in ''record'' ptype \<or> str_in ''{'' (prop_type prop)
      then Some ''{ control: 'object' }''
      else if str_in ''array'' ptype \<or> str_in ''[]'' (prop_type prop)
      then Some ''{ control: 'object' }''
      else if str_in ''file'' ptype \<or> pname \<in> set [''file'', ''files'', ''src'', ''source''] then
        (if str_in ''image'' pname \<or> str_in ''avatar'' pname \<or> str_in ''photo'' pname
         then Some ''{ control: { type: 'file', accept: 'image/*' } }''
         else Some ''{ control: 'file' }'')
      else (case enum_control (prop_type prop) of
              Some c \<Rightarrow> Some c
            | None \<Rightarrow>
               if str_in ''function'' ptype \<or> str_in ''=>'' ptype \<or> startswith pname ''on''
               then Some (''{ action: '' @ [CHR 0x27] @ prop_name prop @ ''' }'')
               else if str_in ''string'' ptype then Some ''{ control: 'text' }''
               else if str_in ''react'' ptype \<or> str_in ''node'' ptype \<or> str_in ''element'' ptype
               then Some ''{ control: false }''
               else None))"

definition arg_type_lines :: "PropDefinition \<Rightarrow> string list" where
  \<comment> \<open>the body of the loop of \<open>_generate_arg_types\<close>\<close>
  "arg_type_lines prop =
     (if prop_name prop = ''children'' then []
      else (case infer_control_type prop of
              None \<Rightarrow> []
            | Some control \<Rightarrow>
               if control = [] then []
               else [''    '' @ prop_name prop @ '': '' @ control @ '','']))"

definition generate_arg_types :: "PropDefinition list \<Rightarrow> string" where
  "generate_arg_types ps = join ''\<newline>'' (concat (map arg_type_lines ps))"

definition arg_line :: "string \<times> pyval \<Rightarrow> string" where
  "arg_line kv =
     (case kv of
        (key, PStr v) \<Rightarrow> ''    '' @ key @ '': '' @ [CHR 0x27] @ v @ [CHR 0x27] @ '',''
      | (key, PBool b) \<Rightarrow> ''    '' @ key @ '': '' @ (if b then ''true'' else ''false'') @ '','')"

definition variant_story :: "ComponentMetadata \<Rightarrow> Variant \<Rightarrow> string" where
  \<comment> \<open>the body of the loop of \<open>_generate_variant_stories\<close>\<close>
  "variant_story metadata variant =
     (let lines = map arg_line (args variant);
          lines = (if has_children metadata \<and> ''children'' \<notin> set (map fst (args variant))
                   then lines @ [''    children: '' @ [CHR 0x27] @ cm_name metadata @ [CHR 0x27] @ '','']
                   else lines);
          args_str = join ''\<newline>'' lines
      in ''\<newline>export const '' @ name variant @ '': Story = {\<newline>  args: {\<newline>''
         @ args_str @ ''\<newline>  },\<newline>};\<newline>'')"

definition generate_variant_stories :: "ComponentMetadata \<Rightarrow> Variant list \<Rightarrow> string" where
  "generate_variant_stories metadata variants =
     join ''\<newline>'' (map (variant_story metadata) variants)"

definition generate_default_args :: "ComponentMetadata \<Rightarrow> string" where
  "generate_default_args metadata =
     join ''\<newline>''
       ((if has_children metadata
         then [''    children: '' @ [CHR 0x27] @ cm_name metadata @ [CHR 0x27] @ '','']
         else [])
        @ (if component_type metadata = ''button''
              \<and> list_ex (\<lambda>p. prop_name p = ''onClick'') (props metadata)
           then [''    onClick: () => {},'']
           else []))"

definition render :: "string \<Rightarrow> ComponentMetadata \<Rightarrow> Variant list \<Rightarrow> string" where
  \<comment> \<open>the part of \<open>_generate_story_content\<close> after the template has been read\<close>
  "render template metadata variants =
     (let story_title = ''Components/'' @ cm_name metadata;
          arg_types = generate_arg_types (props metadata);
          variant_stories = generate_variant_stories metadata variants;
          default_args = generate_default_args metadata;
          interaction_test = get_default INTERACTION_TESTS (component_type metadata)
                               ''// Component-specific interaction test'';
          a11y_rules = join ('',\<newline>          '')
                         (get_default A11Y_RULES (component_type metadata)
                            [''{ id: 'color-contrast', enabled: true }'']);
          a11y_test = get_default A11Y_TEST_CODE (component_type metadata)
                        ''// Component-specific accessibility test'';
          story_content = replace ''{{COMPONENT_NAME}}'' (cm_name metadata) template;
          story_content = replace ''{{STORY_TITLE}}'' story_title story_content;
          story_content = replace ''{{ARG_TYPES}}'' arg_types story_content;
          story_content = replace ''{{VARIANT_STORIES}}'' variant_stories story_content;
          story_content = replace ''{{DEFAULT_ARGS}}'' default_args story_content;
          story_content = replace ''{{INTERACTION_TEST_CODE}}'' (strip interaction_test) story_content;
          story_content = replace ''{{A11Y_RULES}}'' a11y_rules story_content;
          story_content = replace ''{{A11Y_TEST_CODE}}'' (strip a11y_test) story_content
      in story_content)"

definition generate_story_content ::
    "env \<Rightarrow> ComponentMetadata \<Rightarrow> Variant list \<Rightarrow> string \<Rightarrow> world \<Rightarrow> (exn + string) \<times> world" where
  "generate_story_content e metadata variants testing_level w =
     (let template_path = TEMPLATE_DIR e @ ''/'' @ framework metadata @ ''-'' @ testing_level
                          @ ''.template'';
          template_path = (if \<not> exists w template_path
                           then TEMPLATE_DIR e @ ''/'' @ framework metadata @ ''-basic.template''
                           else template_path)
      in if \<not> exists w template_path then (Inr [], eprint (TemplateNotFound template_path) w)
         else (case read_file w template_path of
                 Inl x \<Rightarrow> (Inl x, w)
               | Inr template \<Rightarrow> (Inr (render template metadata variants), w)))"

text \<open>
  \<open>generate_story\<close> returns the story text, or \<open>None\<close> when the component could not
  be parsed; an exception raised while the template is read or the output is written
  leaves the function. Writing creates the missing directories above the output path and
  then the file; \<open>writable\<close> says whether both succeed.
\<close>

definition write_file :: "string \<Rightarrow> string \<Rightarrow> world \<Rightarrow> world" where
  "write_file p content w = w\<lparr>fs := (fs w)(p := Text content)\<rparr>"

definition oprint :: "message \<Rightarrow> world \<Rightarrow> world" where
  "oprint m w = w\<lparr>stdout := stdout w @ [m]\<rparr>"

definition generate_story ::
    "env \<Rightarrow> string \<Rightarrow> string \<Rightarrow> string option \<Rightarrow> world \<Rightarrow> (exn + string option) \<times> world" where
  "generate_story e component_path testing_level output_path w =
     (case parse_component e component_path w of
        (None, w1) \<Rightarrow> (Inr None, eprint (FailedToParse component_path) w1)
      | (Some metadata, w1) \<Rightarrow>
         (let variants = detect_variants (metadata_to_dict metadata) in
          case generate_story_content e metadata variants testing_level w1 of
            (Inl x, w2) \<Rightarrow> (Inl x, w2)
          | (Inr story_content, w2) \<Rightarrow>
             (case output_path of
                None \<Rightarrow> (Inr (Some story_content), w2)
              | Some p \<Rightarrow>
                 if p = [] then (Inr (Some story_content), w2)
                 else if \<not> writable w2 p then (Inl IOError, w2)
                 else (Inr (Some story_content),
                       oprint (StoryGenerated p) (write_file p story_content w2)))))"

section \<open>Component names\<close>





section \<open>Concrete inputs\<close>

definition spinner_md :: metadata_dict where
  "spinner_md = \<lparr>md_name = ''Spinner'', md_component_type = Some ''other'', md_props = Some []\<rparr>"

definition size_scale_props :: "prop_dict list" where
  "size_scale_props =
     [\<lparr>pd_name = ''size'', pd_type = '''xs' | 'sm' | 'md' | 'lg' | 'xl'' @ [CHR 0x27],
       pd_required = False, pd_default_value = None\<rparr>]"

definition button_md ::
    "string \<Rightarrow> bool \<Rightarrow> string option \<Rightarrow> bool \<Rightarrow> string option \<Rightarrow> metadata_dict" where
  \<comment> \<open>a button with the props \<open>variant: 'primary' | 'secondary'\<close> and \<open>disabled: boolean\<close>\<close>
  "button_md n r1 d1 r2 d2 =
     \<lparr>md_name = n, md_component_type = Some ''button'',
      md_props = Some
        [\<lparr>pd_name = ''variant'', pd_type = '''primary' | 'secondary'' @ [CHR 0x27],
          pd_required = r1, pd_default_value = d1\<rparr>,
         \<lparr>pd_name = ''disabled'', pd_type = ''boolean'',
          pd_required = r2, pd_default_value = d2\<rparr>]\<rparr>"

definition bare_modal_md :: metadata_dict where
  "bare_modal_md = \<lparr>md_name = ''Dialog'', md_component_type = Some ''modal'', md_props = Some []\<rparr>"

text \<open>
  A project with four components and no templates. For a component name with special
  characters the search of \<open>plain_env\<close> raises, as \<open>re\<close> does for a name that is no
  valid pattern.
\<close>

definition plain_env :: env where
  "plain_env = \<lparr>TEMPLATE_DIR = ''templates'', re_named = (\<lambda>k nm content. Inl ReError)\<rparr>"

definition button_tsx :: string where
  "button_tsx =
     ''interface ButtonProps {\<newline>''
     @ ''  variant: 'primary' | 'secondary';\<newline>''
     @ ''  disabled?: boolean;\<newline>''
     @ ''}\<newline>''
     @ ''export function Button(props: ButtonProps) {}\<newline>''"

definition card_svelte :: string where
  "card_svelte =
     ''<script>\<newline>''
     @ ''export let size = 'md';\<newline>''
     @ ''export let title: string;\<newline>''
     @ ''</script>\<newline>''
     @ ''<slot />\<newline>''"

definition widget_vue :: string where
  "widget_vue =
     ''<script setup>\<newline>''
     @ ''function Helper() {}\<newline>''
     @ ''defineProps<{ label: string }>()\<newline>''
     @ ''</script>\<newline>''"

definition icon_list_jsx :: string where
  "icon_list_jsx = ''export default () => null;\<newline>''"

definition project_fs :: "string \<Rightarrow> node" where
  "project_fs p =
     (if p = ''src/Button.tsx'' then Text button_tsx
      else if p = ''src/icon-list.jsx'' then Text icon_list_jsx
      else if p = ''src/Card.svelte'' then Text card_svelte
      else if p = ''src/Widget.vue'' then Text widget_vue
      else Missing)"

definition project :: world where
  "project = \<lparr>fs = project_fs, writable = (\<lambda>p. True), stderr = [], stdout = []\<rparr>"

definition card_size_prop :: PropDefinition where
  "card_size_prop =
     \<lparr>prop_name = ''size'', prop_type = ''any'', required = False,
      default_value = Some (CHR 0x27 # ''md'' @ [CHR 0x27]), prop_description = None\<rparr>"

definition card_md :: ComponentMetadata where
  "card_md =
     \<lparr>cm_name = ''Card'', file_path = ''src/Card.svelte'', framework = ''svelte'',
      props = [card_size_prop,
               \<lparr>prop_name = ''title'', prop_type = ''string'', required = True,
                default_value = None, prop_description = None\<rparr>],
      component_type = ''card'', has_children = True, exports_default = True\<rparr>"

definition widget_md :: ComponentMetadata where
  "widget_md =
     \<lparr>cm_name = ''Widget'', file_path = ''src/Widget.vue'', framework = ''vue'',
      props = [\<lparr>prop_name = ''label'', prop_type = ''string'', required = True,
                default_value = None, prop_description = None\<rparr>],
      component_type = ''other'', has_children = False, exports_default = True\<rparr>"

definition button_cm :: ComponentMetadata where
  "button_cm =
     \<lparr>cm_name = ''Button'', file_path = ''src/Button.tsx'', framework = ''react'',
      props = [\<lparr>prop_name = ''variant'',
                prop_type = '''primary' | 'secondary'' @ [CHR 0x27], required = True,
                default_value = None, prop_description = None\<rparr>,
               \<lparr>prop_name = ''disabled'', prop_type = ''boolean'', required = False,
                default_value = None, prop_description = None\<rparr>],
      component_type = ''button'', has_children = False, exports_default = False\<rparr>"

definition background_prop :: PropDefinition where
  "background_prop =
     \<lparr>prop_name = ''backgroundColor'', prop_type = ''string'', required = False,
      default_value = None, prop_description = None\<rparr>"


section \<open>Properties of variant detection\<close>

lemma lower_char_e: "lower_char d = CHR ''e'' \<Longrightarrow> d = CHR ''e'' \<or> d = CHR ''E''"
  by (simp add: lower_char_def split: if_splits)

lemma capitalize_Default_shape:
  assumes "capitalize v = ''Default''"
  shows "length v = 7 \<and> (v ! 1 = CHR ''e'' \<or> v ! 1 = CHR ''E'')"
proof -
  from assms obtain c cs where v: "v = c # cs" and cs: "lower cs = ''efault''"
    by (cases v) (auto simp: capitalize_def)
  from cs obtain d ds where "cs = d # ds" and "lower_char d = CHR ''e''" and "length ds = 5"
    by (cases cs) (auto simp: lower_def)
  with v lower_char_e show ?thesis by auto
qed

lemma capitalize_expected:
  "map_of VARIANT_PATTERNS n = Some ev \<Longrightarrow> v \<in> set ev \<Longrightarrow> capitalize v \<noteq> ''Default''"
  by (auto simp: VARIANT_PATTERNS_def split: if_splits dest!: capitalize_Default_shape)

lemma VARIANT_PATTERNS_nonempty:
  "map_of VARIANT_PATTERNS n = Some ev \<Longrightarrow> ev \<noteq> []"
  by (auto simp: VARIANT_PATTERNS_def split: if_splits)

lemma enum_variants_of_name:
  assumes "v \<in> set (enum_variants_of p)"
  shows "name v \<noteq> ''Default'' \<and> priority v = 1"
proof (cases "map_of VARIANT_PATTERNS (pd_name p)")
  case None
  with assms show ?thesis by (simp add: enum_variants_of_def)
next
  case (Some ev)
  then have "ev \<noteq> []" by (rule VARIANT_PATTERNS_nonempty)
  with assms Some obtain x where "x \<in> set ev" and "name v = capitalize x" and "priority v = 1"
    by (auto simp: enum_variants_of_def)
  with Some show ?thesis using capitalize_expected by simp
qed

lemma size_variants_of_name:
  "v \<in> set (size_variants_of p) \<Longrightarrow> name v \<in> {''Small'', ''Large''} \<and> priority v = 2"
  by (auto simp: size_variants_of_def size_variant_of_def split: if_splits)

lemma capitalize_Default:
  assumes "capitalize p = ''Default''"
  shows "lower p \<notin> set STATE_PROPS"
proof (cases p)
  case Nil
  then show ?thesis by (simp add: lower_def STATE_PROPS_def)
next
  case (Cons c cs)
  with assms have "lower cs = ''efault''" by (simp add: capitalize_def)
  with Cons have "lower p = lower_char c # ''efault''" by (simp add: lower_def)
  then show ?thesis by (simp add: STATE_PROPS_def)
qed

lemma state_variants_of_name:
  "v \<in> set (state_variants_of p) \<Longrightarrow> name v \<noteq> ''Default'' \<and> priority v = 2"
  using capitalize_Default [of "pd_name p"]
  by (auto simp: state_variants_of_def split: if_splits)

lemma type_specific_name:
  "v \<in> set (detect_type_specific_variants t ps) \<Longrightarrow>
     name v \<noteq> ''Default'' \<and> priority v \<in> {1, 2, 3}"
  by (auto simp: detect_type_specific_variants_def split: if_splits)

lemma detected_name:
  assumes "v \<in> set (detected md)"
  shows "name v \<noteq> ''Default'' \<and> priority v \<in> {1, 2, 3}"
proof -
  define ps where "ps = (case md_props md of None \<Rightarrow> [] | Some ps \<Rightarrow> ps)"
  define t where "t = (case md_component_type md of None \<Rightarrow> ''other'' | Some t \<Rightarrow> t)"
  from assms consider
      (e) p where "v \<in> set (enum_variants_of p)"
    | (s) p where "v \<in> set (size_variants_of p)"
    | (b) p where "v \<in> set (state_variants_of p)"
    | (t) "v \<in> set (detect_type_specific_variants t ps)"
    by (auto simp: detected_def detect_enum_variants_def detect_size_variants_def
          detect_state_variants_def ps_def t_def Let_def)
  then show ?thesis
  proof cases
    case e then show ?thesis using enum_variants_of_name by fastforce
  next
    case s then show ?thesis using size_variants_of_name by fastforce
  next
    case b then show ?thesis using state_variants_of_name by fastforce
  next
    case t then show ?thesis using type_specific_name by blast
  qed
qed

lemma set_detect_variants:
  "set (detect_variants md) = (if detected md = [] then {default_variant} else set (detected md))"
  by (simp add: detect_variants_def Let_def)

text \<open>
  C1. For every metadata dictionary \<open>detect_variants\<close> returns a list that is not empty
  and in which every priority is 1, 2 or 3. The fallback variant \<open>Default\<close> (no
  arguments, priority 1) is in the list exactly when the four detection passes produced
  nothing, no other variant bears that name, and the fallback is then the whole list.
\<close>

theorem detect_variants_nonempty:
  "detect_variants md \<noteq> []
   \<and> (\<forall>v \<in> set (detect_variants md). priority v \<in> {1, 2, 3})
   \<and> (default_variant \<in> set (detect_variants md) \<longleftrightarrow> detected md = [])
   \<and> (''Default'' \<in> set (map name (detect_variants md)) \<longleftrightarrow> detected md = [])
   \<and> (detected md = [] \<longrightarrow> detect_variants md = [default_variant])"
proof (cases "detected md = []")
  case True
  then show ?thesis
    by (simp add: detect_variants_def Let_def default_variant_def)
next
  case False
  have s: "set (detect_variants md) = set (detected md)"
    using False by (simp add: set_detect_variants)
  have n: "detect_variants md \<noteq> []"
    using False s by (simp flip: set_empty)
  have d: "default_variant \<notin> set (detected md)"
    using detected_name [of default_variant md] by (auto simp: default_variant_def)
  have m: "''Default'' \<notin> set (map name (detect_variants md))"
  proof
    assume "''Default'' \<in> set (map name (detect_variants md))"
    then obtain x where "x \<in> set (detected md)" and "name x = ''Default''"
      using s by auto
    then show False using detected_name by blast
  qed
  show ?thesis
    using False n s d m detected_name [of _ md] by auto
qed

theorem detect_variants_nonempty_witness:
  "detected spinner_md = [] \<and> detect_variants spinner_md = [default_variant]
   \<and> default_variant \<in> set (detect_variants spinner_md)
   \<and> priority default_variant \<in> {1, 2, 3}"
  using detect_variants_nonempty [of spinner_md]
  by (simp add: spinner_md_def detected_def detect_enum_variants_def detect_size_variants_def
        detect_state_variants_def detect_type_specific_variants_def default_variant_def)

text \<open>
  C3. The size pass emits a variant for every small or large literal of the union, not
  one per family: for a prop \<open>size\<close> of type \<open>'xs' | 'sm' | 'md' | 'lg' | 'xl'\<close> it
  returns two variants named \<open>Small\<close> and two named \<open>Large\<close>.
\<close>

theorem detect_size_variants_repeats:
  "detect_size_variants size_scale_props =
     [\<lparr>name = ''Small'', description = ''Small size variant'',
       args = [(''size'', PStr ''xs'')], priority = 2\<rparr>,
      \<lparr>name = ''Small'', description = ''Small size variant'',
       args = [(''size'', PStr ''sm'')], priority = 2\<rparr>,
      \<lparr>name = ''Large'', description = ''Large size variant'',
       args = [(''size'', PStr ''lg'')], priority = 2\<rparr>,
      \<lparr>name = ''Large'', description = ''Large size variant'',
       args = [(''size'', PStr ''xl'')], priority = 2\<rparr>]"
  by code_simp

lemma button_md_variants:
  "detect_variants (button_md n r1 d1 r2 d2) =
     [\<lparr>name = ''Primary'', description = ''variant: primary'',
       args = [(''variant'', PStr ''primary'')], priority = 1\<rparr>,
      \<lparr>name = ''Secondary'', description = ''variant: secondary'',
       args = [(''variant'', PStr ''secondary'')], priority = 1\<rparr>,
      \<lparr>name = ''Disabled'', description = ''disabled state'',
       args = [(''disabled'', PBool True)], priority = 2\<rparr>]"
  by code_simp

text \<open>
  C5. For a component classified as a button with the props
  \<open>variant: 'primary' | 'secondary'\<close> and \<open>disabled: boolean\<close> (whatever its name and
  whether the props are required or have defaults), \<open>detect_variants\<close> returns
  \<open>Primary\<close> and \<open>Secondary\<close> with priority 1 and their \<open>variant\<close> argument, then
  \<open>Disabled\<close> with priority 2 and \<open>disabled\<close> set to true: three entries, none of
  them named \<open>Default\<close>.
\<close>

theorem button_variants:
  "\<lparr>name = ''Primary'', description = ''variant: primary'',
     args = [(''variant'', PStr ''primary'')], priority = 1\<rparr>
     \<in> set (detect_variants (button_md n r1 d1 r2 d2))
   \<and> \<lparr>name = ''Secondary'', description = ''variant: secondary'',
       args = [(''variant'', PStr ''secondary'')], priority = 1\<rparr>
     \<in> set (detect_variants (button_md n r1 d1 r2 d2))
   \<and> \<lparr>name = ''Disabled'', description = ''disabled state'',
       args = [(''disabled'', PBool True)], priority = 2\<rparr>
     \<in> set (detect_variants (button_md n r1 d1 r2 d2))
   \<and> 3 \<le> length (detect_variants (button_md n r1 d1 r2 d2))
   \<and> ''Default'' \<notin> set (map name (detect_variants (button_md n r1 d1 r2 d2)))
   \<and> map name (detect_variants (button_md n r1 d1 r2 d2)) = [''Primary'', ''Secondary'', ''Disabled'']"
  by (simp add: button_md_variants)

text \<open>
  C7. Whatever its props (also with none, or with the key \<open>props\<close> absent), a
  metadata dictionary whose component type is \<open>modal\<close> gets a variant \<open>Open\<close> of
  priority 1 whose arguments set \<open>isOpen\<close> to true.
\<close>

theorem modal_open:
  "md_component_type md = Some ''modal'' \<Longrightarrow>
   \<lparr>name = ''Open'', description = ''Modal in open state'',
    args = [(''isOpen'', PBool True)], priority = 1\<rparr> \<in> set (detect_variants md)"
  by (simp add: set_detect_variants detected_def detect_type_specific_variants_def Let_def)

theorem modal_open_witness:
  "md_component_type bare_modal_md = Some ''modal''
   \<and> \<lparr>name = ''Open'', description = ''Modal in open state'',
      args = [(''isOpen'', PBool True)], priority = 1\<rparr> \<in> set (detect_variants bare_modal_md)"
  using modal_open [of bare_modal_md] by (simp add: bare_modal_md_def)

section \<open>Properties of the parser\<close>

lemma traverse_Inr:
  "traverse f xs = Inr ys \<Longrightarrow> y \<in> set ys \<Longrightarrow> \<exists>x \<in> set xs. f x = Inr y"
proof (induction xs arbitrary: ys)
  case Nil
  then show ?case by simp
next
  case (Cons x xs)
  then show ?case
    by (auto simp: bind_def split: sum.splits)
qed

lemma bind_Inr: "bind m f = Inr y \<longleftrightarrow> (\<exists>x. m = Inr x \<and> f x = Inr y)"
  by (cases m) (simp_all add: bind_def)

lemma react_prop_of_default: "react_prop_of g = Inr pd \<Longrightarrow> default_value pd = None"
  by (auto simp: react_prop_of_def bind_def split: sum.splits option.splits)

lemma vue_prop_of_default: "vue_prop_of g = Inr pd \<Longrightarrow> default_value pd = None"
  by (auto simp: vue_prop_of_def bind_def split: sum.splits option.splits)

lemma vue_runtime_prop_of_default: "vue_runtime_prop_of g = Inr pd \<Longrightarrow> default_value pd = None"
  by (auto simp: vue_runtime_prop_of_def split: option.splits)

lemma svelte_prop_of_required:
  "svelte_prop_of g = Inr pd \<Longrightarrow> required pd = (default_value pd = None)"
  by (auto simp: svelte_prop_of_def Let_def split: option.splits)

lemma react_extract_props_default:
  assumes "react_extract_props e content nm = Inr ps" and "pd \<in> set ps"
  shows "default_value pd = None"
proof -
  from assms(1) obtain m4 where
    m4: "(case m4 of None \<Rightarrow> Inr [] | Some None \<Rightarrow> Inl TypeError
          | Some (Some props_block) \<Rightarrow>
              traverse react_prop_of (re_finditer react_prop_rx props_block)) = Inr ps"
    unfolding react_extract_props_def bind_Inr by blast
  show ?thesis
  proof (cases m4)
    case None
    with m4 assms(2) show ?thesis by simp
  next
    case (Some b)
    show ?thesis
    proof (cases b)
      case None
      with Some m4 show ?thesis by simp
    next
      case (Some block)
      with \<open>m4 = Some b\<close> m4
      have "traverse react_prop_of (re_finditer react_prop_rx block) = Inr ps" by simp
      from traverse_Inr [OF this assms(2)] obtain g where "react_prop_of g = Inr pd" by blast
      then show ?thesis by (rule react_prop_of_default)
    qed
  qed
qed

lemma traverse_default:
  assumes "traverse f xs = Inr ys" and "\<And>g q. f g = Inr q \<Longrightarrow> default_value q = None"
    and "pd \<in> set ys"
  shows "default_value pd = None"
proof -
  from traverse_Inr [OF assms(1) assms(3)] obtain g where "f g = Inr pd" by blast
  then show ?thesis by (rule assms(2))
qed

lemma vue_extract_props_default:
  assumes "vue_extract_props content = Inr ps" and "pd \<in> set ps"
  shows "default_value pd = None"
proof -
  from assms(1) obtain typed where
    t: "(case re_search vue_props_rx content of
           None \<Rightarrow> Inr []
         | Some g \<Rightarrow>
            (case match_group g 1 of
               None \<Rightarrow> Inl TypeError
             | Some props_block \<Rightarrow>
                 traverse vue_prop_of (re_finditer vue_prop_rx props_block))) = Inr typed"
    and r: "(case re_search vue_runtime_rx content of
               None \<Rightarrow> Inr typed
             | Some g \<Rightarrow>
                if typed \<noteq> [] then Inr typed
                else (case match_group g 1 of
                        None \<Rightarrow> Inl TypeError
                      | Some props_block \<Rightarrow>
                          bind (traverse vue_runtime_prop_of
                                  (re_finditer vue_runtime_prop_rx props_block))
                               (\<lambda>rs. Inr (typed @ rs)))) = Inr ps"
    unfolding vue_extract_props_def bind_Inr by blast
  have typed: "default_value q = None" if "q \<in> set typed" for q
    using t that
    by (auto split: option.splits elim!: traverse_default [rotated 2] dest: vue_prop_of_default)
  from r consider "ps = typed"
    | block rs where "traverse vue_runtime_prop_of
                        (re_finditer vue_runtime_prop_rx block) = Inr rs" and "ps = typed @ rs"
    by (auto simp: bind_Inr split: option.splits if_splits)
  then show ?thesis
  proof cases
    case 1
    with assms(2) typed show ?thesis by simp
  next
    case 2
    from assms(2) 2(2) consider "pd \<in> set typed" | "pd \<in> set rs" by auto
    then show ?thesis
    proof cases
      case 1 then show ?thesis by (rule typed)
    next
      case 2
      from traverse_default [OF \<open>traverse vue_runtime_prop_of _ = Inr rs\<close> _ 2]
      show ?thesis using vue_runtime_prop_of_default by blast
    qed
  qed
qed

lemma svelte_extract_props_required:
  assumes "svelte_extract_props content = Inr ps" and "pd \<in> set ps"
  shows "required pd = (default_value pd = None)"
proof -
  from assms(1) have "traverse svelte_prop_of (re_finditer svelte_prop_rx content) = Inr ps"
    by (simp add: svelte_extract_props_def)
  from traverse_Inr [OF this assms(2)] obtain g where "svelte_prop_of g = Inr pd" by blast
  then show ?thesis by (rule svelte_prop_of_required)
qed

lemma React_parse_Some:
  assumes "fst (ReactTypeScriptParser_parse e p w) = Some md"
  shows "\<exists>content nm. fs w p = Text content \<and> extract_component_name content p = Some nm
           \<and> nm \<noteq> [] \<and> react_extract_props e content nm = Inr (props md)
           \<and> cm_name md = nm \<and> framework md = ''react''
           \<and> exports_default md = str_in ''export default'' content"
  using assms
  by (auto simp: ReactTypeScriptParser_parse_def read_file_def
           split: node.splits sum.splits option.splits if_splits)

lemma Vue_parse_Some:
  assumes "fst (VueParser_parse p w) = Some md"
  shows "\<exists>content. fs w p = Text content \<and> vue_extract_props content = Inr (props md)
           \<and> cm_name md = path_stem p \<and> framework md = ''vue'' \<and> exports_default md"
  using assms
  by (auto simp: VueParser_parse_def read_file_def Let_def
           split: node.splits sum.splits option.splits if_splits)

lemma Svelte_parse_Some:
  assumes "fst (SvelteParser_parse p w) = Some md"
  shows "\<exists>content. fs w p = Text content \<and> svelte_extract_props content = Inr (props md)
           \<and> cm_name md = path_stem p \<and> framework md = ''svelte'' \<and> exports_default md"
  using assms
  by (auto simp: SvelteParser_parse_def read_file_def Let_def
           split: node.splits sum.splits option.splits if_splits)

lemma parse_component_cases:
  assumes "fst (parse_component e p w) = Some md"
  obtains (react) "lower (path_suffix p) \<in> set [''.tsx'', ''.jsx'', ''.ts'', ''.js'']"
      and "fst (ReactTypeScriptParser_parse e p w) = Some md"
    | (vue) "lower (path_suffix p) = ''.vue''" and "fst (VueParser_parse p w) = Some md"
    | (svelte) "lower (path_suffix p) = ''.svelte''" and "fst (SvelteParser_parse p w) = Some md"
  using assms unfolding parse_component_def Let_def
  by (auto split: if_splits)

lemma card_parsed:
  "fst (parse_component plain_env ''src/Card.svelte'' project) =
     Some \<lparr>cm_name = ''Card'', file_path = ''src/Card.svelte'', framework = ''svelte'',
           props = [\<lparr>prop_name = ''size'', prop_type = ''any'', required = False,
                     default_value = Some (CHR 0x27 # ''md'' @ [CHR 0x27]),
                     prop_description = None\<rparr>,
                    \<lparr>prop_name = ''title'', prop_type = ''string'', required = True,
                     default_value = None, prop_description = None\<rparr>],
           component_type = ''card'', has_children = True, exports_default = True\<rparr>"
  by code_simp

lemma widget_parsed:
  "fst (parse_component plain_env ''src/Widget.vue'' project) =
     Some \<lparr>cm_name = ''Widget'', file_path = ''src/Widget.vue'', framework = ''vue'',
           props = [\<lparr>prop_name = ''label'', prop_type = ''string'', required = True,
                     default_value = None, prop_description = None\<rparr>],
           component_type = ''other'', has_children = False, exports_default = True\<rparr>"
  by code_simp

lemma suffix_widget: "lower (path_suffix ''src/Widget.vue'') = ''.vue''"
  by code_simp

lemma suffix_card: "lower (path_suffix ''src/Card.svelte'') = ''.svelte''"
  by code_simp

lemma React_parse_framework:
  "fst (ReactTypeScriptParser_parse e p w) = Some md \<Longrightarrow> framework md = ''react''"
  using React_parse_Some by blast

lemma Vue_parse_framework: "fst (VueParser_parse p w) = Some md \<Longrightarrow> framework md = ''vue''"
  using Vue_parse_Some by blast

lemma Svelte_parse_framework:
  "fst (SvelteParser_parse p w) = Some md \<Longrightarrow> framework md = ''svelte''"
  using Svelte_parse_Some by blast

lemma button_parsed:
  "fst (parse_component plain_env ''src/Button.tsx'' project) = Some button_cm"
  by code_simp





























lemma parse_component_Some_world:
  assumes "fst (parse_component e p w) = Some md"
  shows "parse_component e p w = (Some md, w)"
proof -
  have r: "snd (ReactTypeScriptParser_parse e p w) = w"
    if "fst (ReactTypeScriptParser_parse e p w) = Some md"
    using that
    by (auto simp: ReactTypeScriptParser_parse_def split: sum.splits option.splits if_splits)
  have v: "snd (VueParser_parse p w) = w" if "fst (VueParser_parse p w) = Some md"
    using that by (auto simp: VueParser_parse_def Let_def split: sum.splits)
  have s: "snd (SvelteParser_parse p w) = w" if "fst (SvelteParser_parse p w) = Some md"
    using that by (auto simp: SvelteParser_parse_def Let_def split: sum.splits)
  from assms have "snd (parse_component e p w) = w"
    using r v s by (auto simp: parse_component_def Let_def split: if_splits)
  with assms show ?thesis by (simp add: prod_eq_iff)
qed






text \<open>
  C9. A prop of the metadata that \<open>parse_component\<close> returns, from any of the three
  parsers, is not required when its default value is set. The React and Vue parsers never
  set a default value; the Svelte parser makes a prop required exactly when it found no
  default.
\<close>

theorem default_not_required:
  assumes "fst (parse_component e p w) = Some md" and "pd \<in> set (props md)"
    and "default_value pd \<noteq> None"
  shows "\<not> required pd"
  using assms(1)
proof (cases rule: parse_component_cases)
  case react
  from React_parse_Some [OF react(2)] obtain content nm where
    "react_extract_props e content nm = Inr (props md)" by blast
  from react_extract_props_default [OF this assms(2)] assms(3) show ?thesis by simp
next
  case vue
  from Vue_parse_Some [OF vue(2)] obtain content where
    "vue_extract_props content = Inr (props md)" by blast
  from vue_extract_props_default [OF this assms(2)] assms(3) show ?thesis by simp
next
  case svelte
  from Svelte_parse_Some [OF svelte(2)] obtain content where
    "svelte_extract_props content = Inr (props md)" by blast
  from svelte_extract_props_required [OF this assms(2)] assms(3) show ?thesis by simp
qed

theorem default_not_required_witness:
  "fst (parse_component plain_env ''src/Card.svelte'' project) = Some card_md
   \<and> card_size_prop \<in> set (props card_md)
   \<and> default_value card_size_prop \<noteq> None
   \<and> \<not> required card_size_prop"
proof -
  have p: "fst (parse_component plain_env ''src/Card.svelte'' project) = Some card_md"
    using card_parsed by (simp add: card_md_def card_size_prop_def)
  have m: "card_size_prop \<in> set (props card_md)"
    by (simp add: card_md_def)
  have d: "default_value card_size_prop \<noteq> None"
    by (simp add: card_size_prop_def)
  from default_not_required [OF p m d] p m d show ?thesis by simp
qed

text \<open>
  C10. When the extension is \<open>.vue\<close> or \<open>.svelte\<close> and the parse returns metadata,
  \<open>exports_default\<close> is true, whatever the file contains: the witness is a Vue file
  without the text \<open>export default\<close>.
\<close>

theorem vue_svelte_exports_default:
  assumes "lower (path_suffix p) = ''.vue'' \<or> lower (path_suffix p) = ''.svelte''"
    and "fst (parse_component e p w) = Some md"
  shows "exports_default md"
  using assms(2)
proof (cases rule: parse_component_cases)
  case react
  with assms(1) show ?thesis by auto
next
  case vue
  from Vue_parse_Some [OF vue(2)] show ?thesis by blast
next
  case svelte
  from Svelte_parse_Some [OF svelte(2)] show ?thesis by blast
qed

theorem vue_svelte_exports_default_witness:
  "lower (path_suffix ''src/Widget.vue'') = ''.vue''
   \<and> fst (parse_component plain_env ''src/Widget.vue'' project) = Some widget_md
   \<and> exports_default widget_md
   \<and> \<not> str_in ''export default'' widget_vue
   \<and> lower (path_suffix ''src/Card.svelte'') = ''.svelte''
   \<and> fst (parse_component plain_env ''src/Card.svelte'' project) = Some card_md
   \<and> exports_default card_md"
proof -
  have w: "fst (parse_component plain_env ''src/Widget.vue'' project) = Some widget_md"
    using widget_parsed by (simp add: widget_md_def)
  have c: "fst (parse_component plain_env ''src/Card.svelte'' project) = Some card_md"
    using card_parsed by (simp add: card_md_def card_size_prop_def)
  have n: "\<not> str_in ''export default'' widget_vue"
    by code_simp
  from vue_svelte_exports_default [OF disjI1 [OF suffix_widget] w]
       vue_svelte_exports_default [OF disjI2 [OF suffix_card] c]
       w c n suffix_widget suffix_card
  show ?thesis by simp
qed

text \<open>
  C6. \<open>parse_component\<close> chooses the parser from the lower-cased suffix of the path
  alone: the React parser for \<open>.tsx\<close>, \<open>.jsx\<close>, \<open>.ts\<close> and \<open>.js\<close>, the Vue
  parser for \<open>.vue\<close>, the Svelte parser for \<open>.svelte\<close>. For every other suffix it
  returns no metadata and only prints the unsupported suffix: no file is read, whatever
  the file system holds. The framework of any metadata it returns is therefore a function
  of the path, not of the content.
\<close>

theorem dispatch_on_extension:
  "(lower (path_suffix p) \<in> set [''.tsx'', ''.jsx'', ''.ts'', ''.js'']
      \<longrightarrow> parse_component e p w = ReactTypeScriptParser_parse e p w)
   \<and> (lower (path_suffix p) = ''.vue'' \<longrightarrow> parse_component e p w = VueParser_parse p w)
   \<and> (lower (path_suffix p) = ''.svelte'' \<longrightarrow> parse_component e p w = SvelteParser_parse p w)
   \<and> (lower (path_suffix p) \<notin> set [''.tsx'', ''.jsx'', ''.ts'', ''.js'', ''.vue'', ''.svelte'']
      \<longrightarrow> parse_component e p w
            = (None, eprint (UnsupportedFileType (lower (path_suffix p))) w))
   \<and> (\<forall>md. fst (parse_component e p w) = Some md \<longrightarrow>
         framework md =
           (if lower (path_suffix p) \<in> set [''.tsx'', ''.jsx'', ''.ts'', ''.js''] then ''react''
            else if lower (path_suffix p) = ''.vue'' then ''vue'' else ''svelte''))"
proof -
  have f: "framework md =
           (if lower (path_suffix p) \<in> set [''.tsx'', ''.jsx'', ''.ts'', ''.js''] then ''react''
            else if lower (path_suffix p) = ''.vue'' then ''vue'' else ''svelte'')"
    if "fst (parse_component e p w) = Some md" for md
    using that
  proof (cases rule: parse_component_cases)
    case react
    then show ?thesis using React_parse_framework by simp
  next
    case vue
    then show ?thesis using Vue_parse_framework by simp
  next
    case svelte
    then show ?thesis using Svelte_parse_framework by simp
  qed
  show ?thesis
    using f by (simp add: parse_component_def Let_def)
qed

theorem dispatch_on_extension_witness:
  "lower (path_suffix ''src/Button.tsx'') \<in> set [''.tsx'', ''.jsx'', ''.ts'', ''.js'']
   \<and> parse_component plain_env ''src/Button.tsx'' project
       = ReactTypeScriptParser_parse plain_env ''src/Button.tsx'' project
   \<and> fst (parse_component plain_env ''src/Button.tsx'' project) = Some button_cm
   \<and> framework button_cm = ''react''
   \<and> lower (path_suffix ''src/Widget.vue'') = ''.vue''
   \<and> parse_component plain_env ''src/Widget.vue'' project = VueParser_parse ''src/Widget.vue'' project
   \<and> lower (path_suffix ''src/Card.svelte'') = ''.svelte''
   \<and> parse_component plain_env ''src/Card.svelte'' project
       = SvelteParser_parse ''src/Card.svelte'' project
   \<and> lower (path_suffix ''docs/README.md'')
       \<notin> set [''.tsx'', ''.jsx'', ''.ts'', ''.js'', ''.vue'', ''.svelte'']
   \<and> parse_component plain_env ''docs/README.md'' project
       = (None, eprint (UnsupportedFileType ''.md'') project)"
proof -
  have b: "lower (path_suffix ''src/Button.tsx'') = ''.tsx''"
    by code_simp
  have r: "lower (path_suffix ''docs/README.md'') = ''.md''"
    by code_simp
  have 1: "parse_component plain_env ''src/Button.tsx'' project
           = ReactTypeScriptParser_parse plain_env ''src/Button.tsx'' project"
    using dispatch_on_extension [of "''src/Button.tsx''" plain_env project] b by simp
  have 2: "parse_component plain_env ''src/Widget.vue'' project
           = VueParser_parse ''src/Widget.vue'' project"
    using dispatch_on_extension [of "''src/Widget.vue''" plain_env project] suffix_widget by simp
  have 3: "parse_component plain_env ''src/Card.svelte'' project
           = SvelteParser_parse ''src/Card.svelte'' project"
    using dispatch_on_extension [of "''src/Card.svelte''" plain_env project] suffix_card by simp
  have 4: "parse_component plain_env ''docs/README.md'' project
           = (None, eprint (UnsupportedFileType ''.md'') project)"
    using dispatch_on_extension [of "''docs/README.md''" plain_env project] r by simp
  have 5: "framework button_cm = ''react''"
    using dispatch_on_extension [of "''src/Button.tsx''" plain_env project] b button_parsed
    by simp
  show ?thesis
    using 1 2 3 4 5 b r suffix_widget suffix_card button_parsed by simp
qed



section \<open>Properties of the story generator\<close>

text \<open>
  C8. A prop whose lower-cased type contains neither \<open>boolean\<close> nor \<open>number\<close> and
  whose lower-cased name contains one of the hints color, background, bg, fill, stroke
  gets the color control, also when its type is \<open>string\<close>: the test on the name comes
  before the test for strings. The witness is the prop \<open>backgroundColor: string\<close>.
\<close>

theorem color_before_text:
  assumes "\<not> str_in ''boolean'' (lower (prop_type prop))"
    and "\<not> str_in ''number'' (lower (prop_type prop))"
    and "list_ex (\<lambda>hint. str_in hint (lower (prop_name prop)))
           [''color'', ''background'', ''bg'', ''fill'', ''stroke'']"
  shows "infer_control_type prop = Some ''{ control: 'color' }''
         \<and> infer_control_type prop \<noteq> Some ''{ control: 'text' }''"
  using assms by (simp add: infer_control_type_def Let_def)

theorem color_before_text_witness:
  "\<not> str_in ''boolean'' (lower (prop_type background_prop))
   \<and> \<not> str_in ''number'' (lower (prop_type background_prop))
   \<and> list_ex (\<lambda>hint. str_in hint (lower (prop_name background_prop)))
        [''color'', ''background'', ''bg'', ''fill'', ''stroke'']
   \<and> str_in ''string'' (lower (prop_type background_prop))
   \<and> infer_control_type background_prop = Some ''{ control: 'color' }''
   \<and> infer_control_type background_prop \<noteq> Some ''{ control: 'text' }''"
proof -
  have a: "\<not> str_in ''boolean'' (lower (prop_type background_prop))"
    by code_simp
  have b: "\<not> str_in ''number'' (lower (prop_type background_prop))"
    by code_simp
  have c: "list_ex (\<lambda>hint. str_in hint (lower (prop_name background_prop)))
             [''color'', ''background'', ''bg'', ''fill'', ''stroke'']"
    by code_simp
  have d: "str_in ''string'' (lower (prop_type background_prop))"
    by code_simp
  from color_before_text [OF a b c] a b c d show ?thesis by simp
qed

lemma generate_story_without_template:
  assumes "parse_component e p w = (Some md, w1)"
    and "\<not> exists w1 (TEMPLATE_DIR e @ ''/'' @ framework md @ ''-'' @ lvl @ ''.template'')"
    and "\<not> exists w1 (TEMPLATE_DIR e @ ''/'' @ framework md @ ''-basic.template'')"
    and "out \<noteq> []" and "writable w1 out"
  shows "generate_story e p lvl (Some out) w =
           (Inr (Some []),
            oprint (StoryGenerated out)
              (write_file out []
                 (eprint (TemplateNotFound
                            (TEMPLATE_DIR e @ ''/'' @ framework md @ ''-basic.template'')) w1)))"
  using assms
  by (simp add: generate_story_def generate_story_content_def Let_def eprint_def)

lemma project_no_templates:
  "\<not> exists project ''templates/react-full.template''
   \<and> \<not> exists project ''templates/react-basic.template''
   \<and> fs project ''out/Button.stories.tsx'' = Missing
   \<and> writable project ''out/Button.stories.tsx''"
  by (simp add: exists_def project_def project_fs_def)

text \<open>
  C2. In a project without any template, \<open>generate_story\<close> called on a component that
  parses, with an output path, reports the missing template on the error stream and
  still writes the output file, empty, and announces the story as generated: the write
  is not withheld when no text could be produced.
\<close>

theorem generate_story_writes_empty_file:
  "\<not> exists project ''templates/react-full.template''
   \<and> \<not> exists project ''templates/react-basic.template''
   \<and> fs project ''out/Button.stories.tsx'' = Missing
   \<and> generate_story plain_env ''src/Button.tsx'' ''full'' (Some ''out/Button.stories.tsx'') project
       = (Inr (Some []),
          oprint (StoryGenerated ''out/Button.stories.tsx'')
            (write_file ''out/Button.stories.tsx'' []
               (eprint (TemplateNotFound ''templates/react-basic.template'') project)))
   \<and> fs (snd (generate_story plain_env ''src/Button.tsx'' ''full''
                 (Some ''out/Button.stories.tsx'') project)) ''out/Button.stories.tsx'' = Text []
   \<and> stderr (snd (generate_story plain_env ''src/Button.tsx'' ''full''
                 (Some ''out/Button.stories.tsx'') project))
       = [TemplateNotFound ''templates/react-basic.template'']
   \<and> stdout (snd (generate_story plain_env ''src/Button.tsx'' ''full''
                 (Some ''out/Button.stories.tsx'') project))
       = [StoryGenerated ''out/Button.stories.tsx'']"
proof -
  have p: "parse_component plain_env ''src/Button.tsx'' project = (Some button_cm, project)"
    using parse_component_Some_world [OF button_parsed] .
  have g: "generate_story plain_env ''src/Button.tsx'' ''full'' (Some ''out/Button.stories.tsx'')
             project
           = (Inr (Some []),
              oprint (StoryGenerated ''out/Button.stories.tsx'')
                (write_file ''out/Button.stories.tsx'' []
                   (eprint (TemplateNotFound ''templates/react-basic.template'') project)))"
    using generate_story_without_template [OF p, of "''full''" "''out/Button.stories.tsx''"]
      project_no_templates
    by (simp add: plain_env_def button_cm_def)
  have s: "stderr project = [] \<and> stdout project = []"
    by (simp add: project_def)
  show ?thesis
    unfolding g using project_no_templates s
    by (simp add: oprint_def write_file_def eprint_def)
qed

end
